theory Spec2Isabelle
  imports Main "HOL-Library.Word"
begin

section \<open>Values, effects and interface calls\<close>

text \<open>
  The package wraps a Go \<open>net.Conn\<close>.  A byte is an 8-bit word, a
  \<open>time.Duration\<close> is an \<open>int64\<close> (compared signed, as Go does), the
  counts \<open>n\<close> of \<open>Read\<close> and \<open>Write\<close> are Go \<open>int\<close>s, which the wrappers
  only pass on.  The types of errors (\<open>'e\<close>), addresses (\<open>'a\<close>) and instants
  (\<open>'t\<close>) are parameters: the wrappers never look into them.  A Go \<open>error\<close>
  is \<open>'e option\<close>, with \<open>None\<close> for \<open>nil\<close>.
\<close>

type_synonym byte = "8 word"
type_synonym Duration = "64 word"

text \<open>A call either returns or panics (a method called on a nil interface value).\<close>

datatype 'r outcome = Panic | Return 'r

text \<open>
  The world a call runs in: the durations handed to \<open>time.Sleep\<close> so far, in
  order, and the state of everything behind the wrapped connections.
\<close>

record 's World =
  sleeps :: "Duration list"
  store :: 's

definition time_Sleep :: "Duration \<Rightarrow> 's World \<Rightarrow> 's World" where
  "time_Sleep d s = s\<lparr>sleeps := sleeps s @ [d]\<rparr>"

text \<open>
  \<open>io.Writer\<close> and \<open>io.Reader\<close> have one method each; a value of the interface
  is that method, or nil.  \<open>Read\<close> fills the slice it is given: the model
  returns the slice's new contents beside \<open>(n, err)\<close>.
\<close>

type_synonym ('s, 'e) Writer =
  "byte list \<Rightarrow> 's World \<Rightarrow> (int \<times> 'e option) outcome \<times> 's World"

type_synonym ('s, 'e) Reader =
  "byte list \<Rightarrow> 's World \<Rightarrow> (int \<times> 'e option \<times> byte list) outcome \<times> 's World"

text \<open>The method table of a value that implements \<open>net.Conn\<close>.\<close>

record ('s, 'e, 'a, 't) Conn =
  Read :: "('s, 'e) Reader"
  Write :: "('s, 'e) Writer"
  Close :: "'s World \<Rightarrow> 'e option outcome \<times> 's World"
  LocalAddr :: "'s World \<Rightarrow> 'a outcome \<times> 's World"
  RemoteAddr :: "'s World \<Rightarrow> 'a outcome \<times> 's World"
  SetDeadline :: "'t \<Rightarrow> 's World \<Rightarrow> 'e option outcome \<times> 's World"
  SetReadDeadline :: "'t \<Rightarrow> 's World \<Rightarrow> 'e option outcome \<times> 's World"
  SetWriteDeadline :: "'t \<Rightarrow> 's World \<Rightarrow> 'e option outcome \<times> 's World"

text \<open>
  A method call on an interface value: on nil it panics before anything
  happens, otherwise it runs the method of the value held.
\<close>

definition io_Write :: "('s, 'e) Writer option \<Rightarrow> ('s, 'e) Writer" where
  "io_Write wr b s = (case wr of None \<Rightarrow> (Panic, s) | Some f \<Rightarrow> f b s)"

definition io_Read :: "('s, 'e) Reader option \<Rightarrow> ('s, 'e) Reader" where
  "io_Read rd b s = (case rd of None \<Rightarrow> (Panic, s) | Some f \<Rightarrow> f b s)"

definition net_Read :: "('s, 'e, 'a, 't) Conn option \<Rightarrow> ('s, 'e) Reader" where
  "net_Read c b s = (case c of None \<Rightarrow> (Panic, s) | Some i \<Rightarrow> Read i b s)"

definition net_Write :: "('s, 'e, 'a, 't) Conn option \<Rightarrow> ('s, 'e) Writer" where
  "net_Write c b s = (case c of None \<Rightarrow> (Panic, s) | Some i \<Rightarrow> Write i b s)"

definition net_Close ::
  "('s, 'e, 'a, 't) Conn option \<Rightarrow> 's World \<Rightarrow> 'e option outcome \<times> 's World" where
  "net_Close c s = (case c of None \<Rightarrow> (Panic, s) | Some i \<Rightarrow> Close i s)"

definition net_LocalAddr ::
  "('s, 'e, 'a, 't) Conn option \<Rightarrow> 's World \<Rightarrow> 'a outcome \<times> 's World" where
  "net_LocalAddr c s = (case c of None \<Rightarrow> (Panic, s) | Some i \<Rightarrow> LocalAddr i s)"

definition net_RemoteAddr ::
  "('s, 'e, 'a, 't) Conn option \<Rightarrow> 's World \<Rightarrow> 'a outcome \<times> 's World" where
  "net_RemoteAddr c s = (case c of None \<Rightarrow> (Panic, s) | Some i \<Rightarrow> RemoteAddr i s)"

definition net_SetDeadline ::
  "('s, 'e, 'a, 't) Conn option \<Rightarrow> 't \<Rightarrow> 's World \<Rightarrow> 'e option outcome \<times> 's World" where
  "net_SetDeadline c t s = (case c of None \<Rightarrow> (Panic, s) | Some i \<Rightarrow> SetDeadline i t s)"

definition net_SetReadDeadline ::
  "('s, 'e, 'a, 't) Conn option \<Rightarrow> 't \<Rightarrow> 's World \<Rightarrow> 'e option outcome \<times> 's World" where
  "net_SetReadDeadline c t s =
     (case c of None \<Rightarrow> (Panic, s) | Some i \<Rightarrow> SetReadDeadline i t s)"

definition net_SetWriteDeadline ::
  "('s, 'e, 'a, 't) Conn option \<Rightarrow> 't \<Rightarrow> 's World \<Rightarrow> 'e option outcome \<times> 's World" where
  "net_SetWriteDeadline c t s =
     (case c of None \<Rightarrow> (Panic, s) | Some i \<Rightarrow> SetWriteDeadline i t s)"

text \<open>
  A \<open>net.Conn\<close> passed where an \<open>io.Writer\<close> or an \<open>io.Reader\<close> is expected: the
  same value seen through the smaller interface; nil stays nil.
\<close>

definition Conn_Writer :: "('s, 'e, 'a, 't) Conn option \<Rightarrow> ('s, 'e) Writer option" where
  "Conn_Writer c = map_option Write c"

definition Conn_Reader :: "('s, 'e, 'a, 't) Conn option \<Rightarrow> ('s, 'e) Reader option" where
  "Conn_Reader c = map_option Read c"

section \<open>The one-byte writer and reader\<close>

text \<open>
  \<open>oneByteWriter.Write\<close>: nothing for an empty slice, otherwise the wrapped
  writer's \<open>Write\<close> on \<open>p[0:1]\<close>.
\<close>

record ('s, 'e) oneByteWriter =
  w :: "('s, 'e) Writer option"

definition oneByteWriter_Write :: "('s, 'e) oneByteWriter \<Rightarrow> ('s, 'e) Writer" where
  "oneByteWriter_Write ow p s =
     (if length p = 0 then (Return (0, None), s)
      else io_Write (oneByteWriter.w ow) (take 1 p) s)"

definition OneByteWriter :: "('s, 'e) Writer option \<Rightarrow> ('s, 'e) Writer option" where
  "OneByteWriter wr = Some (oneByteWriter_Write \<lparr>oneByteWriter.w = wr\<rparr>)"

text \<open>
  \<open>iotest.OneByteReader\<close> of the Go standard library, which
  \<open>NewOneByteReadConn\<close> calls: its \<open>Read\<close> returns \<open>(0, nil)\<close> for an empty
  slice and otherwise reads into \<open>p[0:1]\<close>.  The byte stored into \<open>p[0:1]\<close>
  is the first byte of \<open>p\<close> afterwards; the rest of \<open>p\<close> is untouched.
\<close>

record ('s, 'e) oneByteReader =
  r :: "('s, 'e) Reader option"

definition oneByteReader_Read :: "('s, 'e) oneByteReader \<Rightarrow> ('s, 'e) Reader" where
  "oneByteReader_Read obr p s =
     (if length p = 0 then (Return (0, None, p), s)
      else (case io_Read (oneByteReader.r obr) (take 1 p) s of
              (Panic, s') \<Rightarrow> (Panic, s')
            | (Return (n, err, q), s') \<Rightarrow> (Return (n, err, q @ drop 1 p), s')))"

definition iotest_OneByteReader :: "('s, 'e) Reader option \<Rightarrow> ('s, 'e) Reader option" where
  "iotest_OneByteReader rd = Some (oneByteReader_Read \<lparr>oneByteReader.r = rd\<rparr>)"

section \<open>OneByteWriteConn\<close>

record ('s, 'e, 'a, 't) OneByteWriteConn =
  w :: "('s, 'e) Writer option"
  conn :: "('s, 'e, 'a, 't) Conn option"

definition NewOneByteWriteConn ::
  "('s, 'e, 'a, 't) Conn option \<Rightarrow> ('s, 'e, 'a, 't) OneByteWriteConn" where
  "NewOneByteWriteConn c =
     \<lparr>OneByteWriteConn.w = OneByteWriter (Conn_Writer c), OneByteWriteConn.conn = c\<rparr>"

definition OneByteWriteConn_Read :: "('s, 'e, 'a, 't) OneByteWriteConn \<Rightarrow> ('s, 'e) Reader" where
  "OneByteWriteConn_Read rc b s = net_Read (OneByteWriteConn.conn rc) b s"

definition OneByteWriteConn_Write :: "('s, 'e, 'a, 't) OneByteWriteConn \<Rightarrow> ('s, 'e) Writer" where
  "OneByteWriteConn_Write rc b s = io_Write (OneByteWriteConn.w rc) b s"

definition OneByteWriteConn_Close ::
  "('s, 'e, 'a, 't) OneByteWriteConn \<Rightarrow> 's World \<Rightarrow> 'e option outcome \<times> 's World" where
  "OneByteWriteConn_Close rc s = net_Close (OneByteWriteConn.conn rc) s"

definition OneByteWriteConn_LocalAddr ::
  "('s, 'e, 'a, 't) OneByteWriteConn \<Rightarrow> 's World \<Rightarrow> 'a outcome \<times> 's World" where
  "OneByteWriteConn_LocalAddr rc s = net_LocalAddr (OneByteWriteConn.conn rc) s"

definition OneByteWriteConn_RemoteAddr ::
  "('s, 'e, 'a, 't) OneByteWriteConn \<Rightarrow> 's World \<Rightarrow> 'a outcome \<times> 's World" where
  "OneByteWriteConn_RemoteAddr rc s = net_RemoteAddr (OneByteWriteConn.conn rc) s"

definition OneByteWriteConn_SetDeadline ::
  "('s, 'e, 'a, 't) OneByteWriteConn \<Rightarrow> 't \<Rightarrow> 's World \<Rightarrow> 'e option outcome \<times> 's World" where
  "OneByteWriteConn_SetDeadline rc t s = net_SetDeadline (OneByteWriteConn.conn rc) t s"

definition OneByteWriteConn_SetWriteDeadline ::
  "('s, 'e, 'a, 't) OneByteWriteConn \<Rightarrow> 't \<Rightarrow> 's World \<Rightarrow> 'e option outcome \<times> 's World" where
  "OneByteWriteConn_SetWriteDeadline rc t s =
     net_SetWriteDeadline (OneByteWriteConn.conn rc) t s"

definition OneByteWriteConn_SetReadDeadline ::
  "('s, 'e, 'a, 't) OneByteWriteConn \<Rightarrow> 't \<Rightarrow> 's World \<Rightarrow> 'e option outcome \<times> 's World" where
  "OneByteWriteConn_SetReadDeadline rc t s =
     net_SetReadDeadline (OneByteWriteConn.conn rc) t s"

section \<open>OneByteReadConn\<close>

record ('s, 'e, 'a, 't) OneByteReadConn =
  reader :: "('s, 'e) Reader option"
  conn :: "('s, 'e, 'a, 't) Conn option"

definition OneByteReadConn_Read :: "('s, 'e, 'a, 't) OneByteReadConn \<Rightarrow> ('s, 'e) Reader" where
  "OneByteReadConn_Read rc b s = io_Read (OneByteReadConn.reader rc) b s"

definition OneByteReadConn_Write :: "('s, 'e, 'a, 't) OneByteReadConn \<Rightarrow> ('s, 'e) Writer" where
  "OneByteReadConn_Write rc b s = net_Write (OneByteReadConn.conn rc) b s"

definition OneByteReadConn_Close ::
  "('s, 'e, 'a, 't) OneByteReadConn \<Rightarrow> 's World \<Rightarrow> 'e option outcome \<times> 's World" where
  "OneByteReadConn_Close rc s = net_Close (OneByteReadConn.conn rc) s"

definition OneByteReadConn_LocalAddr ::
  "('s, 'e, 'a, 't) OneByteReadConn \<Rightarrow> 's World \<Rightarrow> 'a outcome \<times> 's World" where
  "OneByteReadConn_LocalAddr rc s = net_LocalAddr (OneByteReadConn.conn rc) s"

definition OneByteReadConn_RemoteAddr ::
  "('s, 'e, 'a, 't) OneByteReadConn \<Rightarrow> 's World \<Rightarrow> 'a outcome \<times> 's World" where
  "OneByteReadConn_RemoteAddr rc s = net_RemoteAddr (OneByteReadConn.conn rc) s"

definition OneByteReadConn_SetDeadline ::
  "('s, 'e, 'a, 't) OneByteReadConn \<Rightarrow> 't \<Rightarrow> 's World \<Rightarrow> 'e option outcome \<times> 's World" where
  "OneByteReadConn_SetDeadline rc t s = net_SetDeadline (OneByteReadConn.conn rc) t s"

definition OneByteReadConn_SetReadDeadline ::
  "('s, 'e, 'a, 't) OneByteReadConn \<Rightarrow> 't \<Rightarrow> 's World \<Rightarrow> 'e option outcome \<times> 's World" where
  "OneByteReadConn_SetReadDeadline rc t s =
     net_SetReadDeadline (OneByteReadConn.conn rc) t s"

definition OneByteReadConn_SetWriteDeadline ::
  "('s, 'e, 'a, 't) OneByteReadConn \<Rightarrow> 't \<Rightarrow> 's World \<Rightarrow> 'e option outcome \<times> 's World" where
  "OneByteReadConn_SetWriteDeadline rc t s =
     net_SetWriteDeadline (OneByteReadConn.conn rc) t s"

text \<open>
  \<open>NewOneByteReadConn\<close> fills in \<open>reader\<close> only: the composite literal leaves
  \<open>conn\<close> at its zero value, the nil interface.
\<close>

definition NewOneByteReadConn ::
  "('s, 'e, 'a, 't) Conn option \<Rightarrow> ('s, 'e, 'a, 't) OneByteReadConn" where
  "NewOneByteReadConn c =
     \<lparr>OneByteReadConn.reader = iotest_OneByteReader (Conn_Reader c),
      OneByteReadConn.conn = None\<rparr>"

section \<open>ReadDelayConn\<close>

record ('s, 'e, 'a, 't) ReadDelayConn =
  delay :: Duration
  conn :: "('s, 'e, 'a, 't) Conn option"

definition NewReadDelayConn ::
  "Duration \<Rightarrow> ('s, 'e, 'a, 't) Conn option \<Rightarrow> ('s, 'e, 'a, 't) ReadDelayConn" where
  "NewReadDelayConn d c = \<lparr>ReadDelayConn.delay = d, ReadDelayConn.conn = c\<rparr>"

definition ReadDelayConn_Read :: "('s, 'e, 'a, 't) ReadDelayConn \<Rightarrow> ('s, 'e) Reader" where
  "ReadDelayConn_Read rc b s =
     net_Read (ReadDelayConn.conn rc) b
       (if 0 <s ReadDelayConn.delay rc then time_Sleep (ReadDelayConn.delay rc) s else s)"

definition ReadDelayConn_Write :: "('s, 'e, 'a, 't) ReadDelayConn \<Rightarrow> ('s, 'e) Writer" where
  "ReadDelayConn_Write rc b s = net_Write (ReadDelayConn.conn rc) b s"

definition ReadDelayConn_Close ::
  "('s, 'e, 'a, 't) ReadDelayConn \<Rightarrow> 's World \<Rightarrow> 'e option outcome \<times> 's World" where
  "ReadDelayConn_Close rc s = net_Close (ReadDelayConn.conn rc) s"

definition ReadDelayConn_LocalAddr ::
  "('s, 'e, 'a, 't) ReadDelayConn \<Rightarrow> 's World \<Rightarrow> 'a outcome \<times> 's World" where
  "ReadDelayConn_LocalAddr rc s = net_LocalAddr (ReadDelayConn.conn rc) s"

definition ReadDelayConn_RemoteAddr ::
  "('s, 'e, 'a, 't) ReadDelayConn \<Rightarrow> 's World \<Rightarrow> 'a outcome \<times> 's World" where
  "ReadDelayConn_RemoteAddr rc s = net_RemoteAddr (ReadDelayConn.conn rc) s"

definition ReadDelayConn_SetDeadline ::
  "('s, 'e, 'a, 't) ReadDelayConn \<Rightarrow> 't \<Rightarrow> 's World \<Rightarrow> 'e option outcome \<times> 's World" where
  "ReadDelayConn_SetDeadline rc t s = net_SetDeadline (ReadDelayConn.conn rc) t s"

definition ReadDelayConn_SetReadDeadline ::
  "('s, 'e, 'a, 't) ReadDelayConn \<Rightarrow> 't \<Rightarrow> 's World \<Rightarrow> 'e option outcome \<times> 's World" where
  "ReadDelayConn_SetReadDeadline rc t s = net_SetReadDeadline (ReadDelayConn.conn rc) t s"

definition ReadDelayConn_SetWriteDeadline ::
  "('s, 'e, 'a, 't) ReadDelayConn \<Rightarrow> 't \<Rightarrow> 's World \<Rightarrow> 'e option outcome \<times> 's World" where
  "ReadDelayConn_SetWriteDeadline rc t s = net_SetWriteDeadline (ReadDelayConn.conn rc) t s"

section \<open>WriteDelayConn\<close>

record ('s, 'e, 'a, 't) WriteDelayConn =
  delay :: Duration
  conn :: "('s, 'e, 'a, 't) Conn option"

definition NewWriteDelayConn ::
  "Duration \<Rightarrow> ('s, 'e, 'a, 't) Conn option \<Rightarrow> ('s, 'e, 'a, 't) WriteDelayConn" where
  "NewWriteDelayConn d c = \<lparr>WriteDelayConn.delay = d, WriteDelayConn.conn = c\<rparr>"

definition WriteDelayConn_Read :: "('s, 'e, 'a, 't) WriteDelayConn \<Rightarrow> ('s, 'e) Reader" where
  "WriteDelayConn_Read rc b s = net_Read (WriteDelayConn.conn rc) b s"

definition WriteDelayConn_Write :: "('s, 'e, 'a, 't) WriteDelayConn \<Rightarrow> ('s, 'e) Writer" where
  "WriteDelayConn_Write rc b s =
     net_Write (WriteDelayConn.conn rc) b
       (if 0 <s WriteDelayConn.delay rc then time_Sleep (WriteDelayConn.delay rc) s else s)"

definition WriteDelayConn_Close ::
  "('s, 'e, 'a, 't) WriteDelayConn \<Rightarrow> 's World \<Rightarrow> 'e option outcome \<times> 's World" where
  "WriteDelayConn_Close rc s = net_Close (WriteDelayConn.conn rc) s"

definition WriteDelayConn_LocalAddr ::
  "('s, 'e, 'a, 't) WriteDelayConn \<Rightarrow> 's World \<Rightarrow> 'a outcome \<times> 's World" where
  "WriteDelayConn_LocalAddr rc s = net_LocalAddr (WriteDelayConn.conn rc) s"

definition WriteDelayConn_RemoteAddr ::
  "('s, 'e, 'a, 't) WriteDelayConn \<Rightarrow> 's World \<Rightarrow> 'a outcome \<times> 's World" where
  "WriteDelayConn_RemoteAddr rc s = net_RemoteAddr (WriteDelayConn.conn rc) s"

definition WriteDelayConn_SetDeadline ::
  "('s, 'e, 'a, 't) WriteDelayConn \<Rightarrow> 't \<Rightarrow> 's World \<Rightarrow> 'e option outcome \<times> 's World" where
  "WriteDelayConn_SetDeadline rc t s = net_SetDeadline (WriteDelayConn.conn rc) t s"

definition WriteDelayConn_SetReadDeadline ::
  "('s, 'e, 'a, 't) WriteDelayConn \<Rightarrow> 't \<Rightarrow> 's World \<Rightarrow> 'e option outcome \<times> 's World" where
  "WriteDelayConn_SetReadDeadline rc t s = net_SetReadDeadline (WriteDelayConn.conn rc) t s"

definition WriteDelayConn_SetWriteDeadline ::
  "('s, 'e, 'a, 't) WriteDelayConn \<Rightarrow> 't \<Rightarrow> 's World \<Rightarrow> 'e option outcome \<times> 's World" where
  "WriteDelayConn_SetWriteDeadline rc t s =
     net_SetWriteDeadline (WriteDelayConn.conn rc) t s"

section \<open>DelayConn\<close>

record ('s, 'e, 'a, 't) DelayConn =
  delay :: Duration
  conn :: "('s, 'e, 'a, 't) Conn option"

definition NewDelayConn ::
  "Duration \<Rightarrow> ('s, 'e, 'a, 't) Conn option \<Rightarrow> ('s, 'e, 'a, 't) DelayConn" where
  "NewDelayConn d c = \<lparr>DelayConn.delay = d, DelayConn.conn = c\<rparr>"

definition DelayConn_Read :: "('s, 'e, 'a, 't) DelayConn \<Rightarrow> ('s, 'e) Reader" where
  "DelayConn_Read rc b s =
     net_Read (DelayConn.conn rc) b
       (if 0 <s DelayConn.delay rc then time_Sleep (DelayConn.delay rc) s else s)"

definition DelayConn_Write :: "('s, 'e, 'a, 't) DelayConn \<Rightarrow> ('s, 'e) Writer" where
  "DelayConn_Write rc b s =
     net_Write (DelayConn.conn rc) b
       (if 0 <s DelayConn.delay rc then time_Sleep (DelayConn.delay rc) s else s)"

definition DelayConn_Close ::
  "('s, 'e, 'a, 't) DelayConn \<Rightarrow> 's World \<Rightarrow> 'e option outcome \<times> 's World" where
  "DelayConn_Close rc s = net_Close (DelayConn.conn rc) s"

definition DelayConn_LocalAddr ::
  "('s, 'e, 'a, 't) DelayConn \<Rightarrow> 's World \<Rightarrow> 'a outcome \<times> 's World" where
  "DelayConn_LocalAddr rc s = net_LocalAddr (DelayConn.conn rc) s"

definition DelayConn_RemoteAddr ::
  "('s, 'e, 'a, 't) DelayConn \<Rightarrow> 's World \<Rightarrow> 'a outcome \<times> 's World" where
  "DelayConn_RemoteAddr rc s = net_RemoteAddr (DelayConn.conn rc) s"

definition DelayConn_SetDeadline ::
  "('s, 'e, 'a, 't) DelayConn \<Rightarrow> 't \<Rightarrow> 's World \<Rightarrow> 'e option outcome \<times> 's World" where
  "DelayConn_SetDeadline rc t s = net_SetDeadline (DelayConn.conn rc) t s"

definition DelayConn_SetReadDeadline ::
  "('s, 'e, 'a, 't) DelayConn \<Rightarrow> 't \<Rightarrow> 's World \<Rightarrow> 'e option outcome \<times> 's World" where
  "DelayConn_SetReadDeadline rc t s = net_SetReadDeadline (DelayConn.conn rc) t s"

definition DelayConn_SetWriteDeadline ::
  "('s, 'e, 'a, 't) DelayConn \<Rightarrow> 't \<Rightarrow> 's World \<Rightarrow> 'e option outcome \<times> 's World" where
  "DelayConn_SetWriteDeadline rc t s = net_SetWriteDeadline (DelayConn.conn rc) t s"

section \<open>The wrappers as connections\<close>

text \<open>
  Every wrapper implements \<open>net.Conn\<close> with the methods above, so a pointer
  to one can itself be wrapped: its method table.
\<close>

definition OneByteWriteConn_Conn ::
  "('s, 'e, 'a, 't) OneByteWriteConn \<Rightarrow> ('s, 'e, 'a, 't) Conn" where
  "OneByteWriteConn_Conn rc =
     \<lparr>Read = OneByteWriteConn_Read rc,
      Write = OneByteWriteConn_Write rc,
      Close = OneByteWriteConn_Close rc,
      LocalAddr = OneByteWriteConn_LocalAddr rc,
      RemoteAddr = OneByteWriteConn_RemoteAddr rc,
      SetDeadline = OneByteWriteConn_SetDeadline rc,
      SetReadDeadline = OneByteWriteConn_SetReadDeadline rc,
      SetWriteDeadline = OneByteWriteConn_SetWriteDeadline rc\<rparr>"

definition OneByteReadConn_Conn ::
  "('s, 'e, 'a, 't) OneByteReadConn \<Rightarrow> ('s, 'e, 'a, 't) Conn" where
  "OneByteReadConn_Conn rc =
     \<lparr>Read = OneByteReadConn_Read rc,
      Write = OneByteReadConn_Write rc,
      Close = OneByteReadConn_Close rc,
      LocalAddr = OneByteReadConn_LocalAddr rc,
      RemoteAddr = OneByteReadConn_RemoteAddr rc,
      SetDeadline = OneByteReadConn_SetDeadline rc,
      SetReadDeadline = OneByteReadConn_SetReadDeadline rc,
      SetWriteDeadline = OneByteReadConn_SetWriteDeadline rc\<rparr>"

definition ReadDelayConn_Conn ::
  "('s, 'e, 'a, 't) ReadDelayConn \<Rightarrow> ('s, 'e, 'a, 't) Conn" where
  "ReadDelayConn_Conn rc =
     \<lparr>Read = ReadDelayConn_Read rc,
      Write = ReadDelayConn_Write rc,
      Close = ReadDelayConn_Close rc,
      LocalAddr = ReadDelayConn_LocalAddr rc,
      RemoteAddr = ReadDelayConn_RemoteAddr rc,
      SetDeadline = ReadDelayConn_SetDeadline rc,
      SetReadDeadline = ReadDelayConn_SetReadDeadline rc,
      SetWriteDeadline = ReadDelayConn_SetWriteDeadline rc\<rparr>"

definition WriteDelayConn_Conn ::
  "('s, 'e, 'a, 't) WriteDelayConn \<Rightarrow> ('s, 'e, 'a, 't) Conn" where
  "WriteDelayConn_Conn rc =
     \<lparr>Read = WriteDelayConn_Read rc,
      Write = WriteDelayConn_Write rc,
      Close = WriteDelayConn_Close rc,
      LocalAddr = WriteDelayConn_LocalAddr rc,
      RemoteAddr = WriteDelayConn_RemoteAddr rc,
      SetDeadline = WriteDelayConn_SetDeadline rc,
      SetReadDeadline = WriteDelayConn_SetReadDeadline rc,
      SetWriteDeadline = WriteDelayConn_SetWriteDeadline rc\<rparr>"

definition DelayConn_Conn ::
  "('s, 'e, 'a, 't) DelayConn \<Rightarrow> ('s, 'e, 'a, 't) Conn" where
  "DelayConn_Conn rc =
     \<lparr>Read = DelayConn_Read rc,
      Write = DelayConn_Write rc,
      Close = DelayConn_Close rc,
      LocalAddr = DelayConn_LocalAddr rc,
      RemoteAddr = DelayConn_RemoteAddr rc,
      SetDeadline = DelayConn_SetDeadline rc,
      SetReadDeadline = DelayConn_SetReadDeadline rc,
      SetWriteDeadline = DelayConn_SetWriteDeadline rc\<rparr>"

section \<open>PerWriteDelayConn\<close>

text \<open>
  Modelled from the spec: \<open>NewPerWriteDelayConn\<close> and the \<open>Write\<close> of the value it
  returns are called by \<open>TestPerWriteDelayConn\<close> but their source is missing.  The
  spec (4.6): the wrapper holds a duration \<open>D\<close> and a connection; \<open>write\<close> of a
  buffer of length N performs N sequential delegated one-byte write attempts,
  each preceded by a sleep of \<open>D\<close> if \<open>D > 0\<close>, and accumulates the bytes
  written; if an attempt fails it returns at once with the bytes accumulated
  so far and that error.
\<close>

record ('s, 'e, 'a, 't) PerWriteDelayConn =
  delay :: Duration
  conn :: "('s, 'e, 'a, 't) Conn option"

definition NewPerWriteDelayConn ::
  "Duration \<Rightarrow> ('s, 'e, 'a, 't) Conn option \<Rightarrow> ('s, 'e, 'a, 't) PerWriteDelayConn" where
  "NewPerWriteDelayConn d c = \<lparr>PerWriteDelayConn.delay = d, PerWriteDelayConn.conn = c\<rparr>"

fun perWrite_loop ::
  "Duration \<Rightarrow> ('s, 'e, 'a, 't) Conn option \<Rightarrow> byte list \<Rightarrow> int \<Rightarrow> 's World
     \<Rightarrow> (int \<times> 'e option) outcome \<times> 's World" where
  "perWrite_loop d c [] written s = (Return (written, None), s)"
| "perWrite_loop d c (x # xs) written s =
     (case net_Write c [x] (if 0 <s d then time_Sleep d s else s) of
        (Panic, s') \<Rightarrow> (Panic, s')
      | (Return (n, err), s') \<Rightarrow>
          (if err \<noteq> None then (Return (written + n, err), s')
           else perWrite_loop d c xs (written + n) s'))"

definition PerWriteDelayConn_Write ::
  "('s, 'e, 'a, 't) PerWriteDelayConn \<Rightarrow> ('s, 'e) Writer" where
  "PerWriteDelayConn_Write rc b s =
     perWrite_loop (PerWriteDelayConn.delay rc) (PerWriteDelayConn.conn rc) b 0 s"

section \<open>What the wrapped connection promises\<close>

text \<open>
  The contract of \<open>io.Writer\<close> for one call of \<open>Write(p)\<close>, which the
  spec's capability contract repeats: the call returns, \<open>0 \<le> n \<le> len(p)\<close>,
  and a short count comes with an error.
\<close>

definition io_Writer_contract :: "byte list \<Rightarrow> (int \<times> 'e option) outcome \<Rightarrow> bool" where
  "io_Writer_contract p res =
     (case res of
        Panic \<Rightarrow> False
      | Return (n, err) \<Rightarrow> 0 \<le> n \<and> n \<le> int (length p) \<and> (n < int (length p) \<longrightarrow> err \<noteq> None))"

text \<open>
  The contract of \<open>io.Reader\<close> for one call of \<open>Read(p)\<close>: the call returns,
  \<open>0 \<le> n \<le> len(p)\<close>, and the slice keeps its length.
\<close>

definition io_Reader_contract ::
  "byte list \<Rightarrow> (int \<times> 'e option \<times> byte list) outcome \<Rightarrow> bool" where
  "io_Reader_contract p res =
     (case res of
        Panic \<Rightarrow> False
      | Return (n, err, q) \<Rightarrow> 0 \<le> n \<and> n \<le> int (length p) \<and> length q = length p)"

text \<open>
  The one-byte writes of the bytes of a buffer, in order, each after the sleep
  the delay asks for: the world after them when every one of them succeeds,
  that is returns \<open>(1, nil)\<close>, and \<open>None\<close> as soon as one does not.
\<close>

fun succeeding_writes ::
  "Duration \<Rightarrow> ('s, 'e, 'a, 't) Conn option \<Rightarrow> byte list \<Rightarrow> 's World \<Rightarrow> 's World option" where
  "succeeding_writes d c [] s = Some s"
| "succeeding_writes d c (x # xs) s =
     (case net_Write c [x] (if 0 <s d then time_Sleep d s else s) of
        (Panic, s') \<Rightarrow> None
      | (Return (n, err), s') \<Rightarrow>
          (if n = 1 \<and> err = None then succeeding_writes d c xs s' else None))"

section \<open>The connection of the tests\<close>

text \<open>
  The tests wrap an \<open>rwconn\<close>, a reader and a writer behind the \<open>net.Conn\<close>
  methods, built over two \<open>bytes.Buffer\<close>s.  \<open>Close\<close> and the deadline setters
  return nil, the addresses are the zero \<open>net.TCPAddr\<close>.
\<close>

datatype error = EOF | ErrShortWrite

datatype TCPAddr = TCPAddr (IP: "byte list") (Port: int) (Zone: string)

record ('s, 'e) rwconn =
  r :: "('s, 'e) Reader option"
  w :: "('s, 'e) Writer option"

definition rwconn_Read :: "('s, 'e) rwconn \<Rightarrow> ('s, 'e) Reader" where
  "rwconn_Read rwc b s = io_Read (rwconn.r rwc) b s"

definition rwconn_Write :: "('s, 'e) rwconn \<Rightarrow> ('s, 'e) Writer" where
  "rwconn_Write rwc b s = io_Write (rwconn.w rwc) b s"

definition rwconn_Conn :: "('s, 'e) rwconn \<Rightarrow> ('s, 'e, TCPAddr, 't) Conn" where
  "rwconn_Conn rwc =
     \<lparr>Read = rwconn_Read rwc,
      Write = rwconn_Write rwc,
      Close = (\<lambda>s. (Return None, s)),
      LocalAddr = (\<lambda>s. (Return (TCPAddr [] 0 []), s)),
      RemoteAddr = (\<lambda>s. (Return (TCPAddr [] 0 []), s)),
      SetDeadline = (\<lambda>t s. (Return None, s)),
      SetReadDeadline = (\<lambda>t s. (Return None, s)),
      SetWriteDeadline = (\<lambda>t s. (Return None, s))\<rparr>"

text \<open>
  The two buffers of a test: the unread bytes of the one read from and of the
  one written to.  \<open>bytes.Buffer.Read\<close> returns \<open>(0, io.EOF)\<close> on an empty
  buffer (\<open>(0, nil)\<close> when \<open>p\<close> is empty too) and otherwise copies as many bytes
  as fit; \<open>bytes.Buffer.Write\<close> appends all of \<open>p\<close>.
\<close>

record Buffers =
  r_buf :: "byte list"
  w_buf :: "byte list"

definition Buffer_Read :: "(Buffers, error) Reader" where
  "Buffer_Read p s =
     (let buf = r_buf (store s) in
      if buf = [] then (Return (0, if p = [] then None else Some EOF, p), s)
      else (let n = min (length p) (length buf) in
            (Return (int n, None, take n buf @ drop n p),
             s\<lparr>store := (store s)\<lparr>r_buf := drop n buf\<rparr>\<rparr>)))"

definition Buffer_Write :: "(Buffers, error) Writer" where
  "Buffer_Write p s =
     (Return (int (length p), None), s\<lparr>store := (store s)\<lparr>w_buf := w_buf (store s) @ p\<rparr>\<rparr>)"

definition test_conn :: "(Buffers, error, TCPAddr, 't) Conn option" where
  "test_conn = Some (rwconn_Conn \<lparr>rwconn.r = Some Buffer_Read, rwconn.w = Some Buffer_Write\<rparr>)"

text \<open>
  A writer with room for \<open>k\<close> bytes in all: it appends what fits and reports
  \<open>io.ErrShortWrite\<close> when that is less than \<open>p\<close>.
\<close>

definition full_Write :: "nat \<Rightarrow> (Buffers, error) Writer" where
  "full_Write k p s =
     (let n = min (length p) (k - length (w_buf (store s))) in
      (Return (int n, if n < length p then Some ErrShortWrite else None),
       s\<lparr>store := (store s)\<lparr>w_buf := w_buf (store s) @ take n p\<rparr>\<rparr>))"

definition full_conn :: "nat \<Rightarrow> (Buffers, error, TCPAddr, 't) Conn option" where
  "full_conn k = Some (rwconn_Conn \<lparr>rwconn.r = Some Buffer_Read, rwconn.w = Some (full_Write k)\<rparr>)"

text \<open>The world at the start of a test: nothing slept, \<open>input\<close> to read, nothing written.\<close>

definition world0 :: "byte list \<Rightarrow> Buffers World" where
  "world0 input = \<lparr>sleeps = [], store = \<lparr>r_buf = input, w_buf = []\<rparr>\<rparr>"

text \<open>
  A connection that reports the error \<open>e\<close> from every call that can report
  one, as a closed connection does: nothing is read or written.
\<close>

definition failing_conn :: "'e \<Rightarrow> ('s, 'e, TCPAddr, 't) Conn" where
  "failing_conn e =
     \<lparr>Read = (\<lambda>b s. (Return (0, Some e, b), s)),
      Write = (\<lambda>b s. (Return (0, Some e), s)),
      Close = (\<lambda>s. (Return (Some e), s)),
      LocalAddr = (\<lambda>s. (Return (TCPAddr [] 0 []), s)),
      RemoteAddr = (\<lambda>s. (Return (TCPAddr [] 0 []), s)),
      SetDeadline = (\<lambda>t s. (Return (Some e), s)),
      SetReadDeadline = (\<lambda>t s. (Return (Some e), s)),
      SetWriteDeadline = (\<lambda>t s. (Return (Some e), s))\<rparr>"

section \<open>Calls, constructors and adapters\<close>

lemmas calls =
  io_Write_def io_Read_def net_Read_def net_Write_def net_Close_def net_LocalAddr_def
  net_RemoteAddr_def net_SetDeadline_def net_SetReadDeadline_def net_SetWriteDeadline_def

lemmas methods =
  OneByteWriteConn_Read_def OneByteWriteConn_Write_def OneByteWriteConn_Close_def
  OneByteWriteConn_LocalAddr_def OneByteWriteConn_RemoteAddr_def
  OneByteWriteConn_SetDeadline_def OneByteWriteConn_SetReadDeadline_def
  OneByteWriteConn_SetWriteDeadline_def OneByteReadConn_Read_def OneByteReadConn_Write_def
  OneByteReadConn_Close_def OneByteReadConn_LocalAddr_def OneByteReadConn_RemoteAddr_def
  OneByteReadConn_SetDeadline_def OneByteReadConn_SetReadDeadline_def
  OneByteReadConn_SetWriteDeadline_def ReadDelayConn_Read_def ReadDelayConn_Write_def
  ReadDelayConn_Close_def ReadDelayConn_LocalAddr_def ReadDelayConn_RemoteAddr_def
  ReadDelayConn_SetDeadline_def ReadDelayConn_SetReadDeadline_def
  ReadDelayConn_SetWriteDeadline_def WriteDelayConn_Read_def WriteDelayConn_Write_def
  WriteDelayConn_Close_def WriteDelayConn_LocalAddr_def WriteDelayConn_RemoteAddr_def
  WriteDelayConn_SetDeadline_def WriteDelayConn_SetReadDeadline_def
  WriteDelayConn_SetWriteDeadline_def DelayConn_Read_def DelayConn_Write_def
  DelayConn_Close_def DelayConn_LocalAddr_def DelayConn_RemoteAddr_def
  DelayConn_SetDeadline_def DelayConn_SetReadDeadline_def DelayConn_SetWriteDeadline_def

lemmas constructors = NewOneByteWriteConn_def NewOneByteReadConn_def NewReadDelayConn_def
  NewWriteDelayConn_def NewDelayConn_def

lemma io_Write_Conn_Writer: "io_Write (Conn_Writer c) b s = net_Write c b s"
  by (cases c) (simp_all add: io_Write_def net_Write_def Conn_Writer_def)

lemma io_Read_Conn_Reader: "io_Read (Conn_Reader c) b s = net_Read c b s"
  by (cases c) (simp_all add: io_Read_def net_Read_def Conn_Reader_def)

lemma io_Write_Some: "io_Write (Some f) b s = f b s"
  by (simp add: io_Write_def)

lemma io_Read_Some: "io_Read (Some f) b s = f b s"
  by (simp add: io_Read_def)

lemma net_Write_Some: "net_Write (Some i) b s = Write i b s"
  by (simp add: net_Write_def)

lemma take_1_hd: "p \<noteq> [] \<Longrightarrow> take (Suc 0) p = [hd p]"
  by (cases p) simp_all

text \<open>A sleep is visible in the world: the list of sleeps grows.\<close>

lemma time_Sleep_observable: "time_Sleep d s \<noteq> s"
proof
  assume "time_Sleep d s = s"
  then have "length (sleeps (time_Sleep d s)) = length (sleeps s)" by simp
  then show False by (simp add: time_Sleep_def)
qed

text \<open>What the two constructors that add an adapter build.\<close>

lemma OneByteWriteConn_Write_New:
  "OneByteWriteConn_Write (NewOneByteWriteConn c) p s =
     (if p = [] then (Return (0, None), s) else net_Write c (take 1 p) s)"
  by (simp add: OneByteWriteConn_Write_def NewOneByteWriteConn_def OneByteWriter_def
      oneByteWriter_Write_def io_Write_Conn_Writer io_Write_Some)

lemma OneByteReadConn_Read_New:
  "OneByteReadConn_Read (NewOneByteReadConn c) b s =
     (if b = [] then (Return (0, None, b), s)
      else (case net_Read c (take 1 b) s of
              (Panic, s') \<Rightarrow> (Panic, s')
            | (Return (n, err, q), s') \<Rightarrow> (Return (n, err, q @ drop 1 b), s')))"
  by (simp add: OneByteReadConn_Read_def NewOneByteReadConn_def iotest_OneByteReader_def
      oneByteReader_Read_def io_Read_Conn_Reader io_Read_Some)

lemma OneByteReadConn_Read_New_Cons:
  "OneByteReadConn_Read (NewOneByteReadConn c) (x # xs) s =
     (case net_Read c [x] s of
        (Panic, s') \<Rightarrow> (Panic, s')
      | (Return (n, err, q), s') \<Rightarrow> (Return (n, err, q @ xs), s'))"
  by (simp add: OneByteReadConn_Read_New split: prod.split outcome.split)

text \<open>With a positive duration the delayed operations sleep first.\<close>

lemma positive_delay_sleeps:
  assumes "0 <s d"
  shows "ReadDelayConn_Read (NewReadDelayConn d c) b s = net_Read c b (time_Sleep d s)"
    and "WriteDelayConn_Write (NewWriteDelayConn d c) b s = net_Write c b (time_Sleep d s)"
    and "DelayConn_Read (NewDelayConn d c) b s = net_Read c b (time_Sleep d s)"
    and "DelayConn_Write (NewDelayConn d c) b s = net_Write c b (time_Sleep d s)"
  using assms by (simp_all add: methods constructors)

text \<open>
  \<open>TestReadDelayConn\<close> and \<open>TestWriteDelayConn\<close>: with half a second of delay
  a read, or a write, of nil on the empty buffers sleeps once, for that long.
\<close>

lemma TestReadDelayConn:
  "ReadDelayConn_Read (NewReadDelayConn 500000000 test_conn) [] (world0 [])
   = (Return (0, None, []), \<lparr>sleeps = [500000000], store = \<lparr>r_buf = [], w_buf = []\<rparr>\<rparr>)"
  by (simp add: ReadDelayConn_Read_def NewReadDelayConn_def word_sless_alt time_Sleep_def
      test_conn_def rwconn_Conn_def rwconn_Read_def Buffer_Read_def net_Read_def io_Read_def
      world0_def)

lemma TestWriteDelayConn:
  "WriteDelayConn_Write (NewWriteDelayConn 500000000 test_conn) [] (world0 [])
   = (Return (0, None), \<lparr>sleeps = [500000000], store = \<lparr>r_buf = [], w_buf = []\<rparr>\<rparr>)"
  by (simp add: WriteDelayConn_Write_def NewWriteDelayConn_def word_sless_alt time_Sleep_def
      test_conn_def rwconn_Conn_def rwconn_Write_def Buffer_Write_def net_Write_def io_Write_def
      world0_def)

text \<open>
  Wrappers nest: a one-byte writer over a write-delayed connection sleeps and
  then writes the first byte.
\<close>

lemma OneByteWrite_over_WriteDelay:
  "OneByteWriteConn_Write
     (NewOneByteWriteConn (Some (WriteDelayConn_Conn (NewWriteDelayConn d c)))) (x # xs) s
   = net_Write c [x] (if 0 <s d then time_Sleep d s else s)"
  by (simp add: OneByteWriteConn_Write_New net_Write_Some WriteDelayConn_Conn_def
      WriteDelayConn_Write_def NewWriteDelayConn_def)

section \<open>The one-byte wrappers\<close>

text \<open>
  Claim C1 says that every operation other than \<open>Read\<close> of a \<open>OneByteReadConn\<close>
  built by \<open>NewOneByteReadConn\<close> is forwarded to the wrapped connection and
  returns what that connection returns.  The code does not do this: the
  constructor never stores the connection in \<open>conn\<close>, so each of the seven
  methods calls a method of the nil interface and panics, whatever connection
  was passed.  The connection of the tests, asked directly, closes with a nil
  error.
\<close>

theorem NewOneByteReadConn_leaves_conn_nil:
  "OneByteReadConn_Write (NewOneByteReadConn c) b s = (Panic, s)
   \<and> OneByteReadConn_Close (NewOneByteReadConn c) s = (Panic, s)
   \<and> OneByteReadConn_LocalAddr (NewOneByteReadConn c) s = (Panic, s)
   \<and> OneByteReadConn_RemoteAddr (NewOneByteReadConn c) s = (Panic, s)
   \<and> OneByteReadConn_SetDeadline (NewOneByteReadConn c) t s = (Panic, s)
   \<and> OneByteReadConn_SetReadDeadline (NewOneByteReadConn c) t s = (Panic, s)
   \<and> OneByteReadConn_SetWriteDeadline (NewOneByteReadConn c) t s = (Panic, s)
   \<and> net_Close test_conn s0 = (Return None, s0)"
  by (simp add: NewOneByteReadConn_def OneByteReadConn_Write_def OneByteReadConn_Close_def
      OneByteReadConn_LocalAddr_def OneByteReadConn_RemoteAddr_def
      OneByteReadConn_SetDeadline_def OneByteReadConn_SetReadDeadline_def
      OneByteReadConn_SetWriteDeadline_def calls test_conn_def rwconn_Conn_def)

text \<open>
  Claim C4: \<open>Write\<close> of a \<open>oneByteWriter\<close> with an empty buffer returns
  \<open>(0, nil)\<close> and leaves the world as it was, for any wrapped writer (also a
  nil one, or one that fails or panics on every call): no delegated call is
  made.  The same holds through \<open>NewOneByteWriteConn\<close>.
\<close>

theorem oneByteWriter_Write_empty:
  "oneByteWriter_Write ow [] s = (Return (0, None), s)
   \<and> OneByteWriteConn_Write (NewOneByteWriteConn c) [] s = (Return (0, None), s)"
  by (simp add: OneByteWriteConn_Write_New oneByteWriter_Write_def)

text \<open>
  Claim C5: for a non-empty buffer \<open>p\<close>, \<open>Write\<close> of a \<open>oneByteWriter\<close>, and
  of a \<open>OneByteWriteConn\<close> built by \<open>NewOneByteWriteConn\<close>, is exactly one
  \<open>Write\<close> of the wrapped value on the first byte of \<open>p\<close>: same result, same
  world afterwards.  When that call keeps the contract of \<open>io.Writer\<close>, the
  count returned is 0 or 1, and it is 1 when the error is nil, whatever the
  length of \<open>p\<close>.
\<close>

theorem OneByteWrite_first_byte_only:
  assumes "p \<noteq> []"
  shows "oneByteWriter_Write ow p s = io_Write (oneByteWriter.w ow) [hd p] s
    \<and> OneByteWriteConn_Write (NewOneByteWriteConn c) p s = net_Write c [hd p] s
    \<and> (io_Writer_contract [hd p] (fst (net_Write c [hd p] s)) \<longrightarrow>
        (\<exists>n err. fst (OneByteWriteConn_Write (NewOneByteWriteConn c) p s) = Return (n, err)
           \<and> 0 \<le> n \<and> n \<le> 1 \<and> (err = None \<longrightarrow> n = 1)))"
proof -
  have a: "oneByteWriter_Write ow p s = io_Write (oneByteWriter.w ow) [hd p] s"
    using assms by (simp add: oneByteWriter_Write_def take_1_hd)
  have b: "OneByteWriteConn_Write (NewOneByteWriteConn c) p s = net_Write c [hd p] s"
    using assms by (simp add: OneByteWriteConn_Write_New take_1_hd)
  have c: "\<exists>n err. fst (net_Write c [hd p] s) = Return (n, err)
           \<and> 0 \<le> n \<and> n \<le> 1 \<and> (err = None \<longrightarrow> n = 1)"
    if "io_Writer_contract [hd p] (fst (net_Write c [hd p] s))"
    using that by (cases "fst (net_Write c [hd p] s)") (auto simp: io_Writer_contract_def)
  show ?thesis using a b c by simp
qed

text \<open>
  \<open>TestOneByteWriteConn\<close>: 1024 zero bytes written through the wrapper to the
  connection of the tests give \<open>(1, nil)\<close>, and one byte arrives.
\<close>

theorem OneByteWrite_first_byte_only_witness:
  "replicate 1024 (0 :: byte) \<noteq> []
   \<and> io_Writer_contract [0 :: byte]
       (fst (net_Write (test_conn :: (Buffers, error, TCPAddr, int) Conn option) [0] (world0 [])))
   \<and> OneByteWriteConn_Write
       (NewOneByteWriteConn (test_conn :: (Buffers, error, TCPAddr, int) Conn option))
       (replicate 1024 0) (world0 [])
     = (Return (1, None), \<lparr>sleeps = [], store = \<lparr>r_buf = [], w_buf = [0]\<rparr>\<rparr>)"
proof -
  let ?c = "test_conn :: (Buffers, error, TCPAddr, int) Conn option"
  have ne: "replicate 1024 (0 :: byte) \<noteq> []"
    by simp
  have run: "net_Write ?c [0] (world0 [])
      = (Return (1, None), \<lparr>sleeps = [], store = \<lparr>r_buf = [], w_buf = [0]\<rparr>\<rparr>)"
    by (simp add: test_conn_def rwconn_Conn_def rwconn_Write_def Buffer_Write_def world0_def
        net_Write_def io_Write_def)
  have "OneByteWriteConn_Write (NewOneByteWriteConn ?c) (replicate 1024 0) (world0 [])
      = net_Write ?c [hd (replicate 1024 0)] (world0 [])"
    using OneByteWrite_first_byte_only [OF ne, of "\<lparr>oneByteWriter.w = None\<rparr>" "world0 []" ?c] by blast
  then show ?thesis
    using ne run by (simp add: io_Writer_contract_def)
qed

text \<open>
  Claim C6: for a non-empty destination \<open>b\<close>, when the wrapped connection has a
  byte available, that is asked for one byte it delivers \<open>x\<close> with
  \<open>(1, nil)\<close>, \<open>Read\<close> of a \<open>OneByteReadConn\<close> built by \<open>NewOneByteReadConn\<close>
  returns \<open>(1, nil)\<close> with \<open>x\<close> in front of the rest of \<open>b\<close>; and when the
  wrapped call keeps the contract of \<open>io.Reader\<close> the count is 0 or 1 whatever
  the length of \<open>b\<close>.
\<close>

theorem OneByteReadConn_Read_one_byte:
  assumes "b \<noteq> []"
  shows "(net_Read c (take 1 b) s = (Return (1, None, [x]), s') \<longrightarrow>
           OneByteReadConn_Read (NewOneByteReadConn c) b s = (Return (1, None, x # tl b), s'))
    \<and> (io_Reader_contract (take 1 b) (fst (net_Read c (take 1 b) s)) \<longrightarrow>
         (\<exists>n err q. fst (OneByteReadConn_Read (NewOneByteReadConn c) b s) = Return (n, err, q)
            \<and> 0 \<le> n \<and> n \<le> 1 \<and> length q = length b))"
proof -
  have tl: "drop (Suc 0) b = tl b"
    by (simp add: drop_Suc)
  have a: "OneByteReadConn_Read (NewOneByteReadConn c) b s = (Return (1, None, x # tl b), s')"
    if "net_Read c (take 1 b) s = (Return (1, None, [x]), s')"
    using assms that by (simp add: OneByteReadConn_Read_New tl)
  have b: "\<exists>n err q. fst (OneByteReadConn_Read (NewOneByteReadConn c) b s) = Return (n, err, q)
            \<and> 0 \<le> n \<and> n \<le> 1 \<and> length q = length b"
    if "io_Reader_contract (take 1 b) (fst (net_Read c (take 1 b) s))"
  proof (cases "net_Read c (take 1 b) s")
    case (Pair res s1)
    with that assms show ?thesis
      by (cases res) (auto simp: io_Reader_contract_def OneByteReadConn_Read_New Suc_leI)
  qed
  show ?thesis using a b by blast
qed

text \<open>
  \<open>TestOneByteReadConn\<close>: reading into 1024 bytes from a connection holding
  \<open>haha\<close> gives \<open>(1, nil)\<close> and the byte \<open>h\<close>.
\<close>

theorem OneByteReadConn_Read_one_byte_witness:
  "replicate 1024 (0 :: byte) \<noteq> []
   \<and> net_Read (test_conn :: (Buffers, error, TCPAddr, int) Conn option)
       (take 1 (replicate 1024 0)) (world0 [104, 97, 104, 97])
     = (Return (1, None, [104]), \<lparr>sleeps = [], store = \<lparr>r_buf = [97, 104, 97], w_buf = []\<rparr>\<rparr>)
   \<and> OneByteReadConn_Read
       (NewOneByteReadConn (test_conn :: (Buffers, error, TCPAddr, int) Conn option))
       (replicate 1024 0) (world0 [104, 97, 104, 97])
     = (Return (1, None, 104 # replicate 1023 0),
        \<lparr>sleeps = [], store = \<lparr>r_buf = [97, 104, 97], w_buf = []\<rparr>\<rparr>)"
proof -
  let ?c = "test_conn :: (Buffers, error, TCPAddr, int) Conn option"
  let ?s' = "\<lparr>sleeps = [], store = \<lparr>r_buf = [97, 104, 97], w_buf = []\<rparr>\<rparr>"
  have ne: "replicate 1024 (0 :: byte) \<noteq> []"
    by simp
  have one: "take 1 (replicate 1024 (0 :: byte)) = [0]"
    by (simp add: take_1_hd)
  have avail: "net_Read ?c (take 1 (replicate 1024 0)) (world0 [104, 97, 104, 97])
      = (Return (1, None, [104]), ?s')"
    unfolding one
    by (simp add: test_conn_def rwconn_Conn_def rwconn_Read_def Buffer_Read_def
        net_Read_def io_Read_def world0_def)
  have "OneByteReadConn_Read (NewOneByteReadConn ?c) (replicate 1024 0) (world0 [104, 97, 104, 97])
      = (Return (1, None, 104 # tl (replicate 1024 0)), ?s')"
    using OneByteReadConn_Read_one_byte [OF ne, of ?c "world0 [104, 97, 104, 97]" 104 ?s'] avail by blast
  then show ?thesis
    using ne avail by simp
qed

section \<open>The delay wrappers\<close>

text \<open>
  Claim C7: with the duration 0 the delayed operations of \<open>ReadDelayConn\<close>,
  \<open>WriteDelayConn\<close> and \<open>DelayConn\<close> are the wrapped connection's operation run
  in the world the caller has: the guard \<open>delay > 0\<close> is false, nothing is
  added to the sleeps, and result and world are those of the wrapped call.
\<close>

theorem zero_delay_no_sleep:
  "ReadDelayConn_Read (NewReadDelayConn 0 c) b s = net_Read c b s
   \<and> WriteDelayConn_Write (NewWriteDelayConn 0 c) b s = net_Write c b s
   \<and> DelayConn_Read (NewDelayConn 0 c) b s = net_Read c b s
   \<and> DelayConn_Write (NewDelayConn 0 c) b s = net_Write c b s"
  by (simp add: ReadDelayConn_Read_def WriteDelayConn_Write_def DelayConn_Read_def
      DelayConn_Write_def constructors)

text \<open>
  Claim C8: for every duration, buffer and deadline, \<open>Write\<close>, \<open>Close\<close>, the
  address accessors and the deadline setters of a \<open>ReadDelayConn\<close>, and
  \<open>Read\<close>, \<open>Close\<close>, the address accessors and the deadline setters of a
  \<open>WriteDelayConn\<close>, are the wrapped connection's operation run in the same
  world: same result, no sleep.
\<close>

theorem delay_wrappers_frame:
  "ReadDelayConn_Write (NewReadDelayConn d c) b s = net_Write c b s
   \<and> ReadDelayConn_Close (NewReadDelayConn d c) s = net_Close c s
   \<and> ReadDelayConn_LocalAddr (NewReadDelayConn d c) s = net_LocalAddr c s
   \<and> ReadDelayConn_RemoteAddr (NewReadDelayConn d c) s = net_RemoteAddr c s
   \<and> ReadDelayConn_SetDeadline (NewReadDelayConn d c) t s = net_SetDeadline c t s
   \<and> ReadDelayConn_SetReadDeadline (NewReadDelayConn d c) t s = net_SetReadDeadline c t s
   \<and> ReadDelayConn_SetWriteDeadline (NewReadDelayConn d c) t s = net_SetWriteDeadline c t s
   \<and> WriteDelayConn_Read (NewWriteDelayConn d c) b s = net_Read c b s
   \<and> WriteDelayConn_Close (NewWriteDelayConn d c) s = net_Close c s
   \<and> WriteDelayConn_LocalAddr (NewWriteDelayConn d c) s = net_LocalAddr c s
   \<and> WriteDelayConn_RemoteAddr (NewWriteDelayConn d c) s = net_RemoteAddr c s
   \<and> WriteDelayConn_SetDeadline (NewWriteDelayConn d c) t s = net_SetDeadline c t s
   \<and> WriteDelayConn_SetReadDeadline (NewWriteDelayConn d c) t s = net_SetReadDeadline c t s
   \<and> WriteDelayConn_SetWriteDeadline (NewWriteDelayConn d c) t s = net_SetWriteDeadline c t s"
  by (simp add: methods constructors)

text \<open>
  Claim C10: a strictly negative duration is taken by \<open>NewReadDelayConn\<close>,
  \<open>NewWriteDelayConn\<close> and \<open>NewDelayConn\<close> like any other (the constructors
  return no error), and the connection built behaves, in every method, as the
  one built with duration 0: its delayed operations are the wrapped
  connection's, run without a sleep.
\<close>

theorem negative_delay_as_zero:
  assumes "d <s 0"
  shows "ReadDelayConn_Conn (NewReadDelayConn d c) = ReadDelayConn_Conn (NewReadDelayConn 0 c)
   \<and> WriteDelayConn_Conn (NewWriteDelayConn d c) = WriteDelayConn_Conn (NewWriteDelayConn 0 c)
   \<and> DelayConn_Conn (NewDelayConn d c) = DelayConn_Conn (NewDelayConn 0 c)
   \<and> ReadDelayConn_Read (NewReadDelayConn d c) b s = net_Read c b s
   \<and> WriteDelayConn_Write (NewWriteDelayConn d c) b s = net_Write c b s
   \<and> DelayConn_Read (NewDelayConn d c) b s = net_Read c b s
   \<and> DelayConn_Write (NewDelayConn d c) b s = net_Write c b s"
proof -
  have "\<not> 0 <s d"
    using assms by simp
  then show ?thesis
    by (simp add: ReadDelayConn_Conn_def WriteDelayConn_Conn_def DelayConn_Conn_def
        methods constructors fun_eq_iff)
qed

text \<open>With the duration \<open>-1\<close> over the connection of the tests nothing is slept.\<close>

theorem negative_delay_as_zero_witness:
  "(- 1 :: Duration) <s 0
   \<and> ReadDelayConn_Read
       (NewReadDelayConn (- 1) (test_conn :: (Buffers, error, TCPAddr, int) Conn option))
       [0, 0] (world0 [104, 97, 104, 97])
     = (Return (2, None, [104, 97]), \<lparr>sleeps = [], store = \<lparr>r_buf = [104, 97], w_buf = []\<rparr>\<rparr>)
   \<and> WriteDelayConn_Write
       (NewWriteDelayConn (- 1) (test_conn :: (Buffers, error, TCPAddr, int) Conn option))
       [7, 8] (world0 [])
     = (Return (2, None), \<lparr>sleeps = [], store = \<lparr>r_buf = [], w_buf = [7, 8]\<rparr>\<rparr>)"
proof -
  let ?c = "test_conn :: (Buffers, error, TCPAddr, int) Conn option"
  have neg: "(- 1 :: Duration) <s 0"
    by simp
  have rd: "net_Read ?c [0, 0] (world0 [104, 97, 104, 97])
      = (Return (2, None, [104, 97]), \<lparr>sleeps = [], store = \<lparr>r_buf = [104, 97], w_buf = []\<rparr>\<rparr>)"
    by (simp add: test_conn_def rwconn_Conn_def rwconn_Read_def Buffer_Read_def
        net_Read_def io_Read_def world0_def)
  have wr: "net_Write ?c [7, 8] (world0 [])
      = (Return (2, None), \<lparr>sleeps = [], store = \<lparr>r_buf = [], w_buf = [7, 8]\<rparr>\<rparr>)"
    by (simp add: test_conn_def rwconn_Conn_def rwconn_Write_def Buffer_Write_def
        net_Write_def io_Write_def world0_def)
  show ?thesis
    using neg rd wr
      negative_delay_as_zero [OF neg, of ?c "[0, 0]" "world0 [104, 97, 104, 97]"]
      negative_delay_as_zero [OF neg, of ?c "[7, 8]" "world0 []"]
    by simp
qed

section \<open>Errors\<close>

text \<open>
  What the constructors build passes errors on, with one exception.  Every
  method that can return an error, of the connection built by
  \<open>NewOneByteWriteConn\<close>, \<open>NewReadDelayConn\<close>, \<open>NewWriteDelayConn\<close> or
  \<open>NewDelayConn\<close> over \<open>c\<close>, and \<open>Read\<close> of the one built by
  \<open>NewOneByteReadConn\<close>, returns the outcome of one call on \<open>c\<close> itself, in the
  world that call left: the error is the one \<open>c\<close> reported.
\<close>

lemma constructed_wrappers_pass_through:
  "OneByteWriteConn_Write (NewOneByteWriteConn c) (x # xs) s = net_Write c [x] s
   \<and> OneByteWriteConn_Read (NewOneByteWriteConn c) b s = net_Read c b s
   \<and> OneByteWriteConn_Close (NewOneByteWriteConn c) s = net_Close c s
   \<and> OneByteWriteConn_SetDeadline (NewOneByteWriteConn c) t s = net_SetDeadline c t s
   \<and> OneByteWriteConn_SetReadDeadline (NewOneByteWriteConn c) t s = net_SetReadDeadline c t s
   \<and> OneByteWriteConn_SetWriteDeadline (NewOneByteWriteConn c) t s = net_SetWriteDeadline c t s
   \<and> OneByteReadConn_Read (NewOneByteReadConn c) (x # xs) s =
       (case net_Read c [x] s of
          (Panic, s') \<Rightarrow> (Panic, s')
        | (Return (n, err, q), s') \<Rightarrow> (Return (n, err, q @ xs), s'))
   \<and> ReadDelayConn_Read (NewReadDelayConn d c) b s =
       net_Read c b (if 0 <s d then time_Sleep d s else s)
   \<and> ReadDelayConn_Write (NewReadDelayConn d c) b s = net_Write c b s
   \<and> ReadDelayConn_Close (NewReadDelayConn d c) s = net_Close c s
   \<and> ReadDelayConn_SetDeadline (NewReadDelayConn d c) t s = net_SetDeadline c t s
   \<and> ReadDelayConn_SetReadDeadline (NewReadDelayConn d c) t s = net_SetReadDeadline c t s
   \<and> ReadDelayConn_SetWriteDeadline (NewReadDelayConn d c) t s = net_SetWriteDeadline c t s
   \<and> WriteDelayConn_Write (NewWriteDelayConn d c) b s =
       net_Write c b (if 0 <s d then time_Sleep d s else s)
   \<and> WriteDelayConn_Read (NewWriteDelayConn d c) b s = net_Read c b s
   \<and> WriteDelayConn_Close (NewWriteDelayConn d c) s = net_Close c s
   \<and> WriteDelayConn_SetDeadline (NewWriteDelayConn d c) t s = net_SetDeadline c t s
   \<and> WriteDelayConn_SetReadDeadline (NewWriteDelayConn d c) t s = net_SetReadDeadline c t s
   \<and> WriteDelayConn_SetWriteDeadline (NewWriteDelayConn d c) t s = net_SetWriteDeadline c t s
   \<and> DelayConn_Read (NewDelayConn d c) b s =
       net_Read c b (if 0 <s d then time_Sleep d s else s)
   \<and> DelayConn_Write (NewDelayConn d c) b s =
       net_Write c b (if 0 <s d then time_Sleep d s else s)
   \<and> DelayConn_Close (NewDelayConn d c) s = net_Close c s
   \<and> DelayConn_SetDeadline (NewDelayConn d c) t s = net_SetDeadline c t s
   \<and> DelayConn_SetReadDeadline (NewDelayConn d c) t s = net_SetReadDeadline c t s
   \<and> DelayConn_SetWriteDeadline (NewDelayConn d c) t s = net_SetWriteDeadline c t s"
  using OneByteWriteConn_Write_New [of c "x # xs" s] OneByteReadConn_Read_New_Cons [of c x xs s]
  by (simp add: methods constructors)


text \<open>
  \<open>Read\<close> of the same wrapper does reach the wrapped connection and returns
  its error.
\<close>

lemma NewOneByteReadConn_Read_keeps_error:
  "OneByteReadConn_Read (NewOneByteReadConn (Some (failing_conn e))) (x # xs) s
   = (Return (0, Some e, x # xs), s)"
  by (simp add: OneByteReadConn_Read_New_Cons net_Read_def failing_conn_def)

section \<open>The per-write delay\<close>

lemma perWrite_loop_succeeding:
  "succeeding_writes d c bs s = Some s' \<Longrightarrow>
     perWrite_loop d c bs acc s = (Return (acc + int (length bs), None), s')"
proof (induction bs arbitrary: s acc)
  case Nil
  then show ?case by simp
next
  case (Cons x xs)
  then show ?case
    by (auto split: prod.splits outcome.splits if_splits)
qed

lemma perWrite_loop_failing:
  "succeeding_writes d c pre s = Some s1 \<Longrightarrow>
   net_Write c [x] (if 0 <s d then time_Sleep d s1 else s1) = (Return (n, Some e), s2) \<Longrightarrow>
     perWrite_loop d c (pre @ x # post) acc s = (Return (acc + int (length pre) + n, Some e), s2)"
proof (induction pre arbitrary: s acc)
  case Nil
  then show ?case by simp
next
  case (Cons y ys)
  then show ?case
    by (auto split: prod.splits outcome.splits if_splits)
qed

text \<open>The connection of the tests takes every byte.\<close>

lemma succeeding_writes_test_conn:
  "succeeding_writes d test_conn b s =
     Some \<lparr>sleeps = sleeps s @ (if 0 <s d then replicate (length b) d else []),
           store = \<lparr>r_buf = r_buf (store s), w_buf = w_buf (store s) @ b\<rparr>\<rparr>"
proof (induction b arbitrary: s)
  case Nil
  then show ?case by simp
next
  case (Cons x xs)
  then show ?case
    by (simp add: test_conn_def rwconn_Conn_def rwconn_Write_def Buffer_Write_def
        net_Write_def io_Write_def time_Sleep_def replicate_append_same)
qed

text \<open>
  Claim C2: when the one-byte writes of the bytes of a buffer of length L all
  succeed, \<open>Write\<close> of the wrapper built by \<open>NewPerWriteDelayConn\<close> returns
  \<open>(L, nil)\<close>, and the world afterwards is the one those L attempts, made in
  order, leave.
\<close>

theorem PerWriteDelayConn_Write_all_succeed:
  assumes "succeeding_writes d c b s = Some s'"
  shows "PerWriteDelayConn_Write (NewPerWriteDelayConn d c) b s
           = (Return (int (length b), None), s')"
  using perWrite_loop_succeeding [OF assms, of 0]
  by (simp add: PerWriteDelayConn_Write_def NewPerWriteDelayConn_def)

text \<open>
  \<open>TestPerWriteDelayConn\<close>: 1024 zero bytes with a delay of one millisecond
  give \<open>(1024, nil)\<close>, 1024 sleeps and 1024 bytes in the buffer written to.
\<close>

theorem PerWriteDelayConn_Write_all_succeed_witness:
  "succeeding_writes 1000000
     (test_conn :: (Buffers, error, TCPAddr, int) Conn option) (replicate 1024 0) (world0 [104, 97, 104, 97])
     = Some \<lparr>sleeps = replicate 1024 1000000,
             store = \<lparr>r_buf = [104, 97, 104, 97], w_buf = replicate 1024 0\<rparr>\<rparr>
   \<and> PerWriteDelayConn_Write
       (NewPerWriteDelayConn 1000000 (test_conn :: (Buffers, error, TCPAddr, int) Conn option))
       (replicate 1024 0) (world0 [104, 97, 104, 97])
     = (Return (1024, None),
        \<lparr>sleeps = replicate 1024 1000000,
         store = \<lparr>r_buf = [104, 97, 104, 97], w_buf = replicate 1024 0\<rparr>\<rparr>)"
proof -
  let ?c = "test_conn :: (Buffers, error, TCPAddr, int) Conn option"
  have ok: "succeeding_writes 1000000 ?c (replicate 1024 0) (world0 [104, 97, 104, 97])
     = Some \<lparr>sleeps = replicate 1024 1000000,
             store = \<lparr>r_buf = [104, 97, 104, 97], w_buf = replicate 1024 0\<rparr>\<rparr>"
    by (simp add: succeeding_writes_test_conn world0_def word_sless_alt)
  show ?thesis
    using ok PerWriteDelayConn_Write_all_succeed [OF ok] by simp
qed

text \<open>
  Claim C3: when the attempts on the bytes \<open>pre\<close> succeed and the next attempt,
  on \<open>x\<close>, fails with the error \<open>e\<close> and the count \<open>n\<close>, \<open>Write\<close> of the wrapper
  built by \<open>NewPerWriteDelayConn\<close> returns that error with the bytes written so
  far, \<open>length pre + n\<close>, in the world the failing attempt left: the bytes
  \<open>post\<close> after \<open>x\<close> are never tried.
\<close>

theorem PerWriteDelayConn_Write_stops_at_error:
  assumes "succeeding_writes d c pre s = Some s1"
    and "net_Write c [x] (if 0 <s d then time_Sleep d s1 else s1) = (Return (n, Some e), s2)"
  shows "PerWriteDelayConn_Write (NewPerWriteDelayConn d c) (pre @ x # post) s
           = (Return (int (length pre) + n, Some e), s2)"
  using perWrite_loop_failing [OF assms, of post 0]
  by (simp add: PerWriteDelayConn_Write_def NewPerWriteDelayConn_def)

text \<open>
  A connection with room for two bytes: of four bytes two are written, the third
  attempt fails, the fourth is never made (three sleeps).
\<close>

theorem PerWriteDelayConn_Write_stops_at_error_witness:
  "succeeding_writes 5 (full_conn 2 :: (Buffers, error, TCPAddr, int) Conn option) [1, 2] (world0 [])
     = Some \<lparr>sleeps = [5, 5], store = \<lparr>r_buf = [], w_buf = [1, 2]\<rparr>\<rparr>
   \<and> net_Write (full_conn 2 :: (Buffers, error, TCPAddr, int) Conn option) [3]
       (time_Sleep 5 \<lparr>sleeps = [5, 5], store = \<lparr>r_buf = [], w_buf = [1, 2]\<rparr>\<rparr>)
     = (Return (0, Some ErrShortWrite),
        \<lparr>sleeps = [5, 5, 5], store = \<lparr>r_buf = [], w_buf = [1, 2]\<rparr>\<rparr>)
   \<and> PerWriteDelayConn_Write
       (NewPerWriteDelayConn 5 (full_conn 2 :: (Buffers, error, TCPAddr, int) Conn option))
       [1, 2, 3, 4] (world0 [])
     = (Return (2, Some ErrShortWrite),
        \<lparr>sleeps = [5, 5, 5], store = \<lparr>r_buf = [], w_buf = [1, 2]\<rparr>\<rparr>)"
proof -
  let ?c = "full_conn 2 :: (Buffers, error, TCPAddr, int) Conn option"
  let ?s1 = "\<lparr>sleeps = [5, 5], store = \<lparr>r_buf = [], w_buf = [1, 2]\<rparr>\<rparr>"
  let ?s2 = "\<lparr>sleeps = [5, 5, 5], store = \<lparr>r_buf = [], w_buf = [1, 2]\<rparr>\<rparr>"
  have pos: "(0 :: Duration) <s 5"
    by (simp add: word_sless_alt)
  have ok: "succeeding_writes 5 ?c [1, 2] (world0 []) = Some ?s1"
    using pos
    by (simp add: full_conn_def rwconn_Conn_def rwconn_Write_def full_Write_def
        net_Write_def io_Write_def time_Sleep_def world0_def)
  have bad: "net_Write ?c [3] (if 0 <s (5 :: Duration) then time_Sleep 5 ?s1 else ?s1)
      = (Return (0, Some ErrShortWrite), ?s2)"
    using pos
    by (simp add: full_conn_def rwconn_Conn_def rwconn_Write_def full_Write_def
        net_Write_def io_Write_def time_Sleep_def)
  show ?thesis
    using ok bad pos PerWriteDelayConn_Write_stops_at_error [OF ok bad, of "[4]"] by simp
qed

end
